theory Spec2Isabelle
  imports Complex_Main
begin

section \<open>Syntax of the notebooks' code cells\<close>

text \<open>
  The repository holds no functions of its own: its programs are the code cells of two
  Jupyter notebooks and a catalog file.  The cells are embedded as syntax trees that follow
  Python's own abstract syntax (a call has a callee, positional arguments and keywords, where
  a keyword without a name is a \<^verbatim>\<open>**mapping\<close> argument), so that properties of "every
  cell" and "every call" are properties of these trees.  Numeric literals keep their source
  text.  The statement type has the control and error-handling constructs of Python that
  the claims speak of, whether or not a notebook uses them.
\<close>

datatype expr =
    Name string
  | Str string
  | Num string
  | NoneLit
  | BoolLit bool
  | FStr "expr list"
  | Attr expr string
  | Subscript expr expr
  | Call expr "expr list" "(string option \<times> expr) list"
  | ListLit "expr list"
  | TupleLit "expr list"
  | DictLit "(expr \<times> expr) list"
  | ListComp expr "(string \<times> expr) list"
  | BinOp expr string expr
  | Compare expr string expr

datatype stmt =
    Import string "string option"
  | Assign expr expr
  | ExprStmt expr
  | Magic string
  | Comment string
  | For string expr "stmt list"
  | While expr "stmt list"
  | If expr "stmt list" "stmt list"
  | Try "stmt list" "(string option \<times> stmt list) list" "stmt list"
  | Raise "expr option"
  | With expr "stmt list"

datatype cell =
    Markdown string
  | Code string "stmt list"

type_synonym notebook = "cell list"

section \<open>The notebook floods-precipitation-anomaly\<close>

definition floods_cell_7c2365fb :: cell where
  "floods_cell_7c2365fb = Code ''7c2365fb''
    [Import ''xarray'' (Some ''xr''),
     Assign (Name ''ds'')
       (Call (Attr
          (Call (Attr (Name ''xr'') ''open_dataset'')
             [Str ''s3://ecmwf-era5-land/reanalysis-era5-land-no-antartica-v0.zarr'']
             [(Some ''chunks'', DictLit []), (Some ''engine'', Str ''zarr'')])
          ''astype'')
          [Str ''float32''] []),
     ExprStmt (Name ''ds'')]"

definition floods_cell_515a2608 :: cell where
  "floods_cell_515a2608 = Code ''515a2608''
    [Assign (Name ''tp'') (Attr (Name ''ds'') ''tp''),
     Assign (Name ''tp_greece'')
       (Call (Attr (Name ''tp'') ''sel'') []
          [(None, DictLit
              [(Str ''latitude'', Call (Name ''slice'') [Num ''41'', Num ''34''] []),
               (Str ''longitude'', Call (Name ''slice'') [Num ''19'', Num ''28''] [])])]),
     ExprStmt (Name ''tp_greece'')]"

definition floods_cell_451522d5 :: cell where
  "floods_cell_451522d5 = Code ''451522d5-cc9e-4fbf-9138-c96b0e58422c''
    [Assign (Name ''tp_greece_storm_daniel'')
       (Call (Attr (Name ''tp_greece'') ''sel'') []
          [(Some ''valid_time'', ListLit [Str ''2023-09-06'', Str ''2023-09-07''])]),
     ExprStmt (Name ''tp_greece_storm_daniel'')]"

definition floods_cell_d3dd40a4 :: cell where
  "floods_cell_d3dd40a4 = Code ''d3dd40a4-0862-48e9-b708-cd28d2a9793e''
    [Magic ''%time'',
     Assign (Name ''tp_greece_storm_daniel'')
       (Call (Attr (Name ''tp_greece_storm_daniel'') ''compute'') [] [])]"

definition floods_cell_4e0a1540 :: cell where
  "floods_cell_4e0a1540 = Code ''4e0a1540-98b6-4460-8b22-db63d7c8648f''
    [Assign (Name ''tp_greece_storm_daniel_sum'')
       (Call (Attr (Name ''tp_greece_storm_daniel'') ''sum'') [Str ''valid_time''] []),
     ExprStmt (Name ''tp_greece_storm_daniel_sum''),
     Assign (Name ''tp_greece_storm_daniel_sum'')
       (BinOp (Name ''tp_greece_storm_daniel_sum'') ''*'' (Num ''1000'')),
     Assign (Subscript (Attr (Name ''tp_greece_storm_daniel_sum'') ''attrs'') (Str ''units''))
       (Str ''mm''),
     ExprStmt (Name ''tp_greece_storm_daniel_sum'')]"

definition floods_cell_9ebbf756 :: cell where
  "floods_cell_9ebbf756 = Code ''9ebbf756-8458-45bd-9232-5552ff1c5805''
    [Import ''display'' None,
     ExprStmt
       (Call (Attr (Name ''display'') ''map'') [Name ''tp_greece_storm_daniel_sum'']
          [(Some ''vmax'', Num ''400''), (Some ''title'', Str ''Storm Daniel precipitation'')])]"

definition YEARS_expr :: expr where
  "YEARS_expr = ListLit
    [Str ''1991'', Str ''1992'', Str ''1993'',
     Str ''1994'', Str ''1995'', Str ''1996'',
     Str ''1997'', Str ''1998'', Str ''1999'',
     Str ''2000'', Str ''2001'', Str ''2002'',
     Str ''2003'', Str ''2004'', Str ''2005'',
     Str ''2006'', Str ''2007'', Str ''2008'',
     Str ''2009'', Str ''2010'', Str ''2011'',
     Str ''2012'', Str ''2013'', Str ''2014'',
     Str ''2015'', Str ''2016'', Str ''2017'',
     Str ''2018'', Str ''2019'', Str ''2020'']"

definition DAYS_expr :: expr where
  "DAYS_expr = ListLit
    [Str ''01'', Str ''02'', Str ''03'',
     Str ''04'', Str ''05'', Str ''06'',
     Str ''07'', Str ''08'', Str ''09'',
     Str ''10'', Str ''11'', Str ''12'',
     Str ''13'', Str ''14'', Str ''15'',
     Str ''16'', Str ''17'', Str ''18'',
     Str ''19'', Str ''20'', Str ''21'',
     Str ''22'', Str ''23'', Str ''24'',
     Str ''25'', Str ''26'', Str ''27'',
     Str ''28'', Str ''29'', Str ''30'']"

definition floods_cell_cce4fb6d :: cell where
  "floods_cell_cce4fb6d = Code ''cce4fb6d''
    [Assign (Name ''YEARS'') YEARS_expr,
     Assign (Name ''DAYS'') DAYS_expr,
     Assign (Name ''MONTH_REFERENCE_TIME'')
       (ListComp (FStr [Name ''y'', Str ''-09-'', Name ''d''])
          [(''y'', Name ''YEARS''), (''d'', Name ''DAYS'')]),
     Assign (Name ''tp_greece_september_1991_2020'')
       (Call (Attr (Name ''tp_greece'') ''sel'') []
          [(Some ''valid_time'', Name ''MONTH_REFERENCE_TIME'')]),
     ExprStmt (Name ''tp_greece_september_1991_2020'')]"

definition floods_cell_a26f17ac :: cell where
  "floods_cell_a26f17ac = Code ''a26f17ac-fb7b-4382-8fab-729fb791915f''
    [Magic ''%time'',
     Assign (Name ''tp_greece_september_1991_2020'')
       (Call (Attr (Name ''tp_greece_september_1991_2020'') ''compute'') [] [])]"

definition floods_cell_3e46d01e :: cell where
  "floods_cell_3e46d01e = Code ''3e46d01e-d583-459c-8f07-193c8094fa94''
    [Assign (Name ''tp_greece_september_1991_2020_average'')
       (BinOp
          (Call (Attr (Name ''tp_greece_september_1991_2020'') ''sum'') [Str ''valid_time''] [])
          ''/''
          (Call (Name ''len'') [Name ''YEARS''] [])),
     ExprStmt (Name ''tp_greece_september_1991_2020_average''),
     Assign (Name ''tp_greece_september_1991_2020_average'')
       (BinOp (Name ''tp_greece_september_1991_2020_average'') ''*'' (Num ''1000'')),
     Assign
       (Subscript (Attr (Name ''tp_greece_september_1991_2020_average'') ''attrs'')
          (Str ''units''))
       (Str ''mm'')]"

definition floods_cell_52bd5e21 :: cell where
  "floods_cell_52bd5e21 = Code ''52bd5e21''
    [ExprStmt
       (Call (Attr (Name ''display'') ''maps'')
          [ListLit [Name ''tp_greece_storm_daniel_sum'',
                    Name ''tp_greece_september_1991_2020_average'']]
          [(Some ''vmax'', Num ''400''),
           (Some ''axs_set'', ListLit
              [DictLit [(Str ''title'', Str ''Storm Daniel precipitation'')],
               DictLit [(Str ''title'', Str ''Average precipitation in September'')]])])]"

definition floods_cell_cff9826c :: cell where
  "floods_cell_cff9826c = Code ''cff9826c''
    [Assign (Name ''tp_hinterland_location'')
       (Call (Attr (Attr (Name ''ds'') ''tp'') ''sel'') []
          [(None, DictLit
              [(Str ''latitude'', Num ''39.25''),
               (Str ''longitude'', Num ''21.9''),
               (Str ''method'', Str ''nearest'')])]),
     ExprStmt (Name ''tp_hinterland_location'')]"

definition floods_cell_c9190f9c :: cell where
  "floods_cell_c9190f9c = Code ''c9190f9c-9ea2-4301-ad2a-75b4e82ffd32''
    [Magic ''%%time'',
     Assign (Name ''tp_hinterland_location'')
       (Call (Attr (Name ''tp_hinterland_location'') ''compute'') [] [])]"

definition floods_cell_3e0a2d0f :: cell where
  "floods_cell_3e0a2d0f = Code ''3e0a2d0f-4706-434b-8489-7eceebd77850''
    [Import ''datetime'' None,
     Assign (Name ''tp_hinterland_location_daily_total_2023'')
       (Subscript
          (Call (Attr
             (Call (Attr (Name ''tp_hinterland_location'') ''sel'') []
                [(Some ''valid_time'', Str ''2023'')])
             ''groupby'')
             [Str ''valid_time.time''] [])
          (Call (Attr (Name ''datetime'') ''time'') [] [])),
     Assign (Name ''tp_hinterland_location_daily_total_1991_2022'')
       (Subscript
          (Call (Attr
             (Call (Attr (Name ''tp_hinterland_location'') ''sel'') []
                [(Some ''valid_time'', Call (Name ''slice'') [Str ''1991'', Str ''2020''] [])])
             ''groupby'')
             [Str ''valid_time.time''] [])
          (Call (Attr (Name ''datetime'') ''time'') [] []))]"

definition floods_cell_f64f2a30 :: cell where
  "floods_cell_f64f2a30 = Code ''f64f2a30-b8d3-405c-b547-340b330929f7''
    [ExprStmt
       (Call (Attr (Name ''display'') ''compare'')
          [Name ''tp_hinterland_location_daily_total_2023'',
           Name ''tp_hinterland_location_daily_total_1991_2022'']
          [(Some ''time'', Str ''valid_time''),
           (Some ''ylim'', ListLit [Num ''0'', Num ''1600''])])]"

definition floods_notebook :: notebook where
  "floods_notebook =
    [Markdown ''b0e5f65f-c407-4b76-bfc6-08163e482f99'',
     Markdown ''9340306b-172d-4144-aeff-59fd0128af32'',
     Markdown ''6545d036-1a5a-4849-b0ce-98925c0aae12'',
     floods_cell_7c2365fb,
     Markdown ''c2831260-83fd-40e9-bf8c-31803133da0e'',
     Markdown ''54780609-3472-47a4-8d2b-6236b6b2e9b2'',
     Markdown ''67d4d790-4fe5-4aaa-b1ac-9d5ee039d20e'',
     floods_cell_515a2608,
     Markdown ''15304d63-31d7-4504-9fbb-8e094ad23e52'',
     floods_cell_451522d5,
     Markdown ''9044acdf-8005-4b1e-a44b-3d07f7351f9f'',
     floods_cell_d3dd40a4,
     Markdown ''01f1f904-164f-4d7c-ba8d-1057f43308a9'',
     Markdown ''15ec1b72-df32-4952-b119-b7f0a62237ea'',
     floods_cell_4e0a1540,
     Markdown ''8385e60e-7cf4-46b1-a20d-af5e209240b0'',
     floods_cell_9ebbf756,
     Markdown ''a4f56c3c-de01-4600-ae55-d606c17a09bf'',
     floods_cell_cce4fb6d,
     Markdown ''99f2a265-27c7-44a7-9086-d4a0cb364ea2'',
     floods_cell_a26f17ac,
     Markdown ''8b634346-8567-463e-b5ba-dddf5c0e9e1d'',
     floods_cell_3e46d01e,
     Markdown ''489b303d-c9f9-4a59-b49a-c5c78d5e6de2'',
     floods_cell_52bd5e21,
     Markdown ''b423f66a-e524-4809-ae3d-0539e652c44d'',
     Markdown ''a3b844f2-eefb-419a-acfd-6d95148d6179'',
     floods_cell_cff9826c,
     Markdown ''41f1dbe1-c9fd-4e67-99f9-b1f81de08831'',
     floods_cell_c9190f9c,
     Markdown ''26b57ec7-52c4-46f8-b9e8-f7cfb84f1cdc'',
     floods_cell_3e0a2d0f,
     Markdown ''02dc3de9-6f45-4f40-ba93-0cef67f6196d'',
     floods_cell_f64f2a30]"

section \<open>The notebook tutorial-era5-reanalysis-era5-single-levels\<close>

definition era5_cell_1813f28e :: cell where
  "era5_cell_1813f28e = Code ''1813f28e-0200-4dc8-bfa1-360de371e1d2''
    [Import ''xarray'' (Some ''xr''),
     Comment ''your `~/.netrc` file MUST contain your credentials for earthdatahub.com'',
     Comment [],
     Comment ''machine earthdatahub.com'',
     Comment ''  login {your_username}'',
     Comment ''  password {your_password}'',
     Assign (Name ''ds'')
       (Call (Attr (Name ''xr'') ''open_dataset'')
          [Str ''https://earthdatahub.com/stores/ecmwf-era5-single-levels/reanalysis-era5-single-levels.zarr'']
          [(Some ''chunks'', DictLit []),
           (Some ''engine'', Str ''zarr''),
           (Some ''storage_options'',
              DictLit [(Str ''client_kwargs'', DictLit [(Str ''trust_env'', BoolLit True)])])]),
     ExprStmt (Name ''ds'')]"

definition era5_cell_afd7472f :: cell where
  "era5_cell_afd7472f = Code ''afd7472f-7b61-4ab1-bbd7-20f018e9c611''
    [Assign (Name ''t2m'')
       (BinOp (Call (Attr (Attr (Name ''ds'') ''t2m'') ''astype'') [Str ''float32''] [])
          ''-'' (Num ''273.15'')),
     Assign (Subscript (Attr (Name ''t2m'') ''attrs'') (Str ''units'')) (Str ''C''),
     Assign (Name ''t2m_germany_area'')
       (Call (Attr (Name ''t2m'') ''sel'') []
          [(None, DictLit
              [(Str ''latitude'', Call (Name ''slice'') [Num ''55'', Num ''47''] []),
               (Str ''longitude'', Call (Name ''slice'') [Num ''5'', Num ''16''] [])])]),
     ExprStmt (Name ''t2m_germany_area'')]"

definition era5_cell_d5c84107 :: cell where
  "era5_cell_d5c84107 = Code ''d5c84107-e206-4b19-8067-14d49010b841''
    [Assign (Name ''t2m_germany_area_october_2023'')
       (Call (Attr (Name ''t2m_germany_area'') ''sel'') []
          [(Some ''valid_time'', Str ''2023-10'')]),
     ExprStmt (Name ''t2m_germany_area_october_2023'')]"

definition era5_cell_d825f6c6 :: cell where
  "era5_cell_d825f6c6 = Code ''d825f6c6-2da8-430e-8f11-8d03a0d2a7a4''
    [Magic ''%time'',
     Assign (Name ''t2m_germany_area_october_2023'')
       (Call (Attr (Name ''t2m_germany_area_october_2023'') ''compute'') [] [])]"

definition era5_cell_dad2b7ff :: cell where
  "era5_cell_dad2b7ff = Code ''dad2b7ff-88b6-40d5-bba3-c559e58ecdbf''
    [Assign (Name ''t2m_germany_area_october_2023_monthly_mean'')
       (Call (Attr (Name ''t2m_germany_area_october_2023'') ''mean'') []
          [(Some ''dim'', Str ''valid_time'')]),
     ExprStmt (Name ''t2m_germany_area_october_2023_monthly_mean'')]"

definition era5_cell_e2f79322 :: cell where
  "era5_cell_e2f79322 = Code ''e2f79322-8219-4b51-ba56-d37eb5028a44''
    [Import ''display'' None,
     Import ''matplotlib.pyplot'' (Some ''plt'')]"

definition era5_cell_92b515ff :: cell where
  "era5_cell_92b515ff = Code ''92b515ff-0820-4a92-b806-35c58235dab2''
    [ExprStmt
       (Call (Attr (Name ''display'') ''map'')
          [Name ''t2m_germany_area_october_2023_monthly_mean'']
          [(Some ''vmax'', NoneLit),
           (Some ''cmap'', Str ''YlOrRd''),
           (Some ''title'', Str ''Mean Surface Temperature, Oct 2023'')])]"

definition era5_cell_90c55dba :: cell where
  "era5_cell_90c55dba = Code ''90c55dba-1e84-40e1-91aa-5199fa298d06''
    [Assign (Name ''t2m_germany_area_octobers_1981_2010'')
       (Call (Attr
          (Call (Attr (Name ''t2m_germany_area'') ''sel'') []
             [(Some ''valid_time'',
                 Compare (Subscript (Name ''t2m_germany_area'') (Str ''valid_time.month''))
                   ''=='' (Num ''10''))])
          ''sel'') []
          [(Some ''valid_time'', Call (Name ''slice'') [Str ''1981'', Str ''2010''] [])]),
     ExprStmt (Name ''t2m_germany_area_octobers_1981_2010'')]"

definition era5_cell_cb3dd05a :: cell where
  "era5_cell_cb3dd05a = Code ''cb3dd05a-68ed-4a43-be07-4e98f5798c8b''
    [Magic ''%%time'',
     Assign (Name ''t2m_germany_area_octobers_1981_2010'')
       (Call (Attr (Name ''t2m_germany_area_octobers_1981_2010'') ''compute'') [] [])]"

definition era5_cell_260e9ed8 :: cell where
  "era5_cell_260e9ed8 = Code ''260e9ed8-60a5-4c74-b3f7-bf62597f92c4''
    [Assign (Name ''t2m_germany_area_octobers_1981_2010_mean'')
       (Call (Attr (Name ''t2m_germany_area_octobers_1981_2010'') ''mean'') []
          [(Some ''dim'', Str ''valid_time'')])]"

definition era5_cell_673ddbe7 :: cell where
  "era5_cell_673ddbe7 = Code ''673ddbe7-d3af-4d93-815b-0f06ef5ba447''
    [Assign (Name ''anomaly'')
       (BinOp (Name ''t2m_germany_area_october_2023_monthly_mean'') ''-''
          (Name ''t2m_germany_area_octobers_1981_2010_mean'')),
     ExprStmt (Name ''anomaly'')]"

definition era5_cell_c798f9af :: cell where
  "era5_cell_c798f9af = Code ''c798f9af-65af-40c3-be38-4566fc342706''
    [ExprStmt
       (Call (Attr (Name ''display'') ''map'')
          [Name ''anomaly'']
          [(Some ''vmax'', NoneLit),
           (Some ''cmap'', Str ''YlOrRd''),
           (Some ''title'',
              Str ''Mean Surface Temperature anomaly (ref 1981-2010), Oct 2013'')])]"

definition era5_cell_d803a1ce :: cell where
  "era5_cell_d803a1ce = Code ''d803a1ce-ef64-42e2-81bb-e66fb242a035''
    [Magic ''%%time'',
     Assign (Name ''t2m_Berlin'')
       (Call (Attr (Name ''t2m'') ''sel'') []
          [(None, DictLit [(Str ''latitude'', Num ''52.5''), (Str ''longitude'', Num ''13.4'')]),
           (Some ''method'', Str ''nearest'')]),
     ExprStmt (Name ''t2m_Berlin'')]"

definition era5_cell_dfe4d12a :: cell where
  "era5_cell_dfe4d12a = Code ''dfe4d12a-523a-486a-8ab0-8e3967898790''
    [Magic ''%%time'',
     Assign (Name ''t2m_Berlin'')
       (Call (Attr (Name ''t2m_Berlin'') ''compute'') [] [])]"

definition era5_cell_e6789d3c :: cell where
  "era5_cell_e6789d3c = Code ''e6789d3c-25ce-4c2b-993b-cb12dbcad19c''
    [Assign (Name ''t2m_Berlin_climatology_mean'')
       (Call (Attr
          (Call (Attr
             (Call (Attr (Name ''t2m_Berlin'') ''sel'') []
                [(Some ''valid_time'', Call (Name ''slice'') [Str ''1981'', Str ''2010''] [])])
             ''groupby'')
             [Str ''valid_time.month''] [])
          ''mean'') []
          [(Some ''dim'', Str ''valid_time'')]),
     Assign (Name ''t2m_Berlin_climatology_std'')
       (Call (Attr
          (Call (Attr
             (Call (Attr (Name ''t2m_Berlin'') ''sel'') []
                [(Some ''valid_time'', Call (Name ''slice'') [Str ''1981'', Str ''2010''] [])])
             ''groupby'')
             [Str ''valid_time.month''] [])
          ''std'') []
          [(Some ''dim'', Str ''valid_time'')])]"

definition era5_cell_861f10cd :: cell where
  "era5_cell_861f10cd = Code ''861f10cd-0d93-42b9-956e-4e73c4958a19''
    [Assign (Name ''t2m_Berlin_2023_monthly_means'')
       (Call (Attr
          (Call (Attr
             (Call (Attr (Name ''t2m_Berlin'') ''sel'') []
                [(Some ''valid_time'', Str ''2023'')])
             ''resample'') []
             [(Some ''valid_time'', Str ''1M'')])
          ''mean'') []
          [(Some ''dim'', Str ''valid_time'')]),
     ExprStmt (Name ''t2m_Berlin_2023_monthly_means'')]"

definition era5_cell_6605298a :: cell where
  "era5_cell_6605298a = Code ''6605298a-341c-477c-9f96-465999f78f3f''
    [ExprStmt
       (Call (Attr (Name ''plt'') ''figure'') []
          [(Some ''figsize'', TupleLit [Num ''10'', Num ''5''])]),
     ExprStmt
       (Call (Attr (Name ''t2m_Berlin_climatology_mean'') ''plot'') []
          [(Some ''label'', Str ''Mean''), (Some ''color'', Str ''#3498db'')]),
     ExprStmt
       (Call (Attr (Name ''plt'') ''errorbar'')
          [Attr (Name ''t2m_Berlin_climatology_mean'') ''month'',
           Name ''t2m_Berlin_climatology_mean'']
          [(Some ''yerr'', Name ''t2m_Berlin_climatology_std''),
           (Some ''fmt'', Str ''o''),
           (Some ''label'', Str ''Standard Deviation''),
           (Some ''color'', Str ''#a9a9a9'')]),
     For ''month'' (Call (Name ''range'') [Num ''1'', Num ''11''] [])
       [Assign (Name ''t2m_point'')
          (Call (Attr (Name ''t2m_Berlin_2023_monthly_means'') ''sel'') []
             [(Some ''valid_time'',
                 Compare
                   (Subscript (Name ''t2m_Berlin_2023_monthly_means'') (Str ''valid_time.month''))
                   ''=='' (Name ''month''))]),
        Assign (Name ''label'') NoneLit,
        If (Compare (Name ''month'') ''=='' (Num ''1''))
          [Assign (Name ''label'') (Str ''2023'')]
          [],
        ExprStmt
          (Call (Attr (Name ''plt'') ''scatter'') [Name ''month'', Name ''t2m_point'']
             [(Some ''color'', Str ''#ff6600''), (Some ''label'', Name ''label'')])],
     ExprStmt
       (Call (Attr (Name ''plt'') ''title'')
          [Str ''Surface Temperature climatology in Berlin (DE), 1981-2010''] []),
     ExprStmt
       (Call (Attr (Name ''plt'') ''xticks'')
          [Attr (Name ''t2m_Berlin_climatology_mean'') ''month''] []),
     ExprStmt (Call (Attr (Name ''plt'') ''xlabel'') [Str ''Month''] []),
     ExprStmt (Call (Attr (Name ''plt'') ''ylabel'') [Str ''Surface Temperature [C]''] []),
     ExprStmt (Call (Attr (Name ''plt'') ''legend'') [] []),
     ExprStmt (Call (Attr (Name ''plt'') ''grid'') [] [(Some ''alpha'', Num ''0.3'')]),
     ExprStmt (Call (Attr (Name ''plt'') ''show'') [] [])]"

definition era5_cell_68e82fd2 :: cell where
  "era5_cell_68e82fd2 = Code ''68e82fd2-2282-4509-8206-18631ee1bfd0'' []"

definition era5_notebook :: notebook where
  "era5_notebook =
    [Markdown ''45c4009e-b179-41ba-80a9-72d3f495a9a2'',
     Markdown ''8a6d3800-0834-40cc-af79-92af996a2e3a'',
     Markdown ''e0ab81f1-8c8f-4b32-b26e-e1e121b231a0'',
     era5_cell_1813f28e,
     Markdown ''47a86e43-8fd4-45d6-8562-ef3dde4e0f3a'',
     Markdown ''c758022a-ed70-44d3-8e55-8e202149ddbb'',
     Markdown ''37a66374-61b0-4253-8a97-1f3b80231f3b'',
     era5_cell_afd7472f,
     Markdown ''92912551-2146-4104-8c60-8898a5db8fb8'',
     era5_cell_d5c84107,
     Markdown ''0d3e24c3-1c72-44a4-9f96-c708281a939e'',
     era5_cell_d825f6c6,
     Markdown ''33a1f7bd-e98a-46d7-a9f0-4f4abe4913eb'',
     Markdown ''4b0d0292-9a62-47f4-8a6a-2acdd57fa9c2'',
     era5_cell_dad2b7ff,
     Markdown ''52aa192a-e7ca-46c2-8b36-18ef9d55b335'',
     era5_cell_e2f79322,
     era5_cell_92b515ff,
     Markdown ''048c92cb-2e7b-4b21-879b-bdb5f949a186'',
     era5_cell_90c55dba,
     Markdown ''18d731ef-4bea-4468-b54f-6e53c53945da'',
     era5_cell_cb3dd05a,
     Markdown ''26857500-7008-4449-a9c0-44b5352c7cc6'',
     era5_cell_260e9ed8,
     Markdown ''19393deb-97e5-4c36-a8cc-2cc7da841b9c'',
     era5_cell_673ddbe7,
     Markdown ''07ae2b4a-77f4-4cbe-ad71-5338d9fe4e65'',
     era5_cell_c798f9af,
     Markdown ''d4354ad5-fd8f-4687-b9c1-67475164c4fd'',
     Markdown ''fbb2570e-0a52-4495-9ba4-709dfb7c1258'',
     era5_cell_d803a1ce,
     Markdown ''666702b5-b9bb-4ca4-a7f4-b3b5c0053c3e'',
     era5_cell_dfe4d12a,
     Markdown ''d42bc337-5311-4076-9cbe-185184657623'',
     era5_cell_e6789d3c,
     Markdown ''de1cc9f8-c8c6-4fd0-9f0c-047a49ac951a'',
     era5_cell_861f10cd,
     Markdown ''3bceb338-0a99-4f26-b110-e2a4e589d2b1'',
     era5_cell_6605298a,
     era5_cell_68e82fd2]"


section \<open>The catalog index.json\<close>

text \<open>
  The catalog is one JSON object whose member \<^verbatim>\<open>entries\<close> is an array of objects with
  string values.  An object is kept as the list of its members in file order, so that a
  missing or a repeated member would show.
\<close>

type_synonym json_object = "(string \<times> string) list"

definition index_entry_0 :: json_object where
  "index_entry_0 =
    [(''id'', ''floods-precipitation-anomaly''),
     (''title'',
        ''How to work with ERA5 land: Greece 2023 floods due to storm Daniel''),
     (''description'',
        ''This notebook will provide you guidance on how to access and use the reanalysis-era5-land-no-antartica-v0.zarr datset on Earth Data Hub. The first goal is to compute the total precipitation observed during the Storm Daniel event, from 6 to 7 September 2023, in Greece, and compare it with the average 1991-2020 precipitation in the same area. The second goal is to compare the 2023 cumulative precipitation on a specific location (Greece interland) with the cumulative precipitation of past years (1991-2022) for the same location.''),
     (''source'', ''./use-cases/floods-precipitation-anomaly.ipynb''),
     (''export'', ''./use-cases/floods-precipitation-anomaly.html''),
     (''thumbnail_url'', ''./use-cases/floods-precipitation-anomaly.jpg''),
     (''collection'', ''era5''),
     (''dataset'', ''reanalysis-era5-land'')]"

definition index_entry_1 :: json_object where
  "index_entry_1 =
    [(''id'', ''tutorial-era5-reanalysis-era5-single-levels''),
     (''title'',
        ''How to work with ERA5 single levels: climatological analysis of temperature in Germany''),
     (''description'',
        ''This notebook will provide you guidance on how to access and use the reanalysis-era5-single-levels.zarr datset on Earth Data Hub. The first goal is to compute the 2 metre temperature anomaly for the month of October 2023, in the Germany area, against the 1981-2010 reference period. The second goal is to compute the 2 metre temperature climatology (monthly means and standard deviations) in Berlin for the same reference period and compare it with the monthly averages of 2023.''),
     (''source'',
        ''./use-cases/tutorial-era5-reanalysis-era5-single-levels.ipynb''),
     (''export'', ''./use-cases/tutorial-era5-reanalysis-era5-single-levels.html''),
     (''thumbnail_url'', ''./use-cases/tutorial-era5-reanalysis-era5-single-levels.jpg''),
     (''collection'', ''era5''),
     (''dataset'', ''reanalysis-era5-single-levels'')]"

definition index_entry_2 :: json_object where
  "index_entry_2 =
    [(''id'', ''tutorial-cmems-reanalysis-cmems_mod_glo_phy_my_0.083_P1D-m''),
     (''title'', ''El Nino events exploration''),
     (''description'', ''An exploration of El Nino events using CMEMS data''),
     (''source'',
        ''./use-cases/tutorial-cmems-reanalysis-cmems_mod_glo_phy_my_0.083_P1D-m.ipynb''),
     (''export'',
        ''./use-cases/tutorial-cmems-reanalysis-cmems_mod_glo_phy_my_0.083_P1D-m.html''),
     (''thumbnail_url'',
        ''./use-cases/tutorial-cmems-reanalysis-cmems_mod_glo_phy_my_0.083_P1D-m.jpg''),
     (''collection'', ''cmems-reanalysis''),
     (''dataset'', ''cmems_mod_glo_phy_my_0.083_P1D-m'')]"

definition index_entry_3 :: json_object where
  "index_entry_3 =
    [(''id'', ''tutorial-ecmwf-forecasts-opendata-oper''),
     (''title'', ''Surface temperature forecasts''),
     (''description'',
        ''An exploration of surface temperature high-resolution forecasts''),
     (''source'', ''./use-cases/tutorial-ecmwf-forecasts-opendata-oper.ipynb''),
     (''export'', ''./use-cases/tutorial-ecmwf-forecasts-opendata-oper.html''),
     (''thumbnail_url'', ''./use-cases/tutorial-ecmwf-forecasts-opendata-oper.jpg''),
     (''collection'', ''ecmwf-forecasts''),
     (''dataset'', ''opendata-oper'')]"

definition index_entry_4 :: json_object where
  "index_entry_4 =
    [(''id'', ''tutorial-era5-ecv-for-climate-change''),
     (''title'', ''Surface temperature data exploration''),
     (''description'',
        ''An exploration of surface temperature variability using ERA5-derived data''),
     (''source'', ''./use-cases/tutorial-era5-ecv-for-climate-change.ipynb''),
     (''export'', ''./use-cases/tutorial-era5-ecv-for-climate-change.html''),
     (''thumbnail_url'', ''./use-cases/tutorial-era5-ecv-for-climate-change.jpg''),
     (''collection'', ''era5''),
     (''dataset'', ''ecv-for-climate-change'')]"

definition index_entry_5 :: json_object where
  "index_entry_5 =
    [(''id'', ''eurostats_final-energy-consumption''),
     (''title'', ''EUROSTAT final energy consumption''),
     (''description'', ''EUROSTAT Final Consumption of Energy data over Europe.''),
     (''source'', ''./use-cases/eurostats_final-energy-consumption.ipynb''),
     (''export'', ''./use-cases/eurostats_final-energy-consumption.html''),
     (''thumbnail_url'',
        ''https://apps.mundialis.de/bopen_hedp/thumbnails/sdg_07_11-20000101-20210101.png''),
     (''collection'', ''eurostat''),
     (''dataset'', ''geoprocessed-eurostat-final-energy-consumption_sdg_07_11'')]"

definition index_entry_6 :: json_object where
  "index_entry_6 =
    [(''id'', ''eurostats_CDD-and-HDD-data''),
     (''title'', ''EUROSTAT CDD & HDD''),
     (''description'', ''Eurostat CDD & HDD data over Europe.''),
     (''source'', ''./use-cases/eurostats_CDD-and-HDD-data.ipynb''),
     (''export'', ''./use-cases/eurostats_CDD-and-HDD-data.html''),
     (''thumbnail_url'',
        ''https://apps.mundialis.de/bopen_hedp/thumbnails/nrg_chddr2_a-19790101-20220101.png''),
     (''collection'', ''eurostat''),
     (''dataset'', ''geoprocessed-eurostat-final-energy-consumption_sdg_07_11'')]"

definition index_entry_7 :: json_object where
  "index_entry_7 =
    [(''id'', ''eurostats_population''),
     (''title'', ''EUROSTAT population''),
     (''description'', ''Eurostat population data over Europe.''),
     (''source'', ''./use-cases/eurostats_population.ipynb''),
     (''export'', ''./use-cases/eurostats_population.html''),
     (''thumbnail_url'',
        ''https://apps.mundialis.de/bopen_hedp/thumbnails/demo_r_pjanaggr3-19900101-20220101.png''),
     (''collection'', ''eurostat''),
     (''dataset'', ''geoprocessed-eurostat-population-demo_r_pjanaggr3'')]"

definition index_entry_8 :: json_object where
  "index_entry_8 =
    [(''id'', ''eurostats_population-density''),
     (''title'', ''EUROSTAT population density''),
     (''description'', ''Eurostat population density data over Europe.''),
     (''source'', ''./use-cases/eurostats_population-density.ipynb''),
     (''export'', ''./use-cases/eurostats_population-density.html''),
     (''thumbnail_url'',
        ''https://apps.mundialis.de/bopen_hedp/thumbnails/demo_r_d3dens-19900101-20220101.png''),
     (''collection'', ''eurostat''),
     (''dataset'', ''geoprocessed-eurostat-population-density-demo_r_d3dens'')]"

definition index_entry_9 :: json_object where
  "index_entry_9 =
    [(''id'', ''eurostats_gross-domestic-product''),
     (''title'', ''EUROSTAT Gross domestic product''),
     (''description'', ''Europe Gross domestic product (GDP).''),
     (''source'', ''./use-cases/eurostats_gross-domestic-product.ipynb''),
     (''export'', ''./use-cases/eurostats_gross-domestic-product.html''),
     (''thumbnail_url'',
        ''https://apps.mundialis.de/bopen_hedp/thumbnails/nama_10r_3gdp-20000101-20210101.png''),
     (''collection'', ''eurostat''),
     (''dataset'',
        ''geoprocessed-eurostat-regional-economic-accounts_nama_10r_3gdp'')]"

definition index_entry_10 :: json_object where
  "index_entry_10 =
    [(''id'', ''eurostats_soil-erosion''),
     (''title'', ''EUROSTAT soil erosion''),
     (''description'', ''Europe EUROSTAT soil erosion.''),
     (''source'', ''./use-cases/eurostats_soil-erosion.ipynb''),
     (''export'', ''./use-cases/eurostats_soil-erosion.html''),
     (''thumbnail_url'',
        ''https://apps.mundialis.de/bopen_hedp/thumbnails/aei_pr_soiler-20000101-20160101.png''),
     (''collection'', ''eurostat''),
     (''dataset'', ''geoprocessed-eurostat-soil-erosion-aei_pr_soiler'')]"

definition index_entries :: "json_object list" where
  "index_entries =
    [index_entry_0, index_entry_1, index_entry_2, index_entry_3, index_entry_4, index_entry_5,
     index_entry_6, index_entry_7, index_entry_8, index_entry_9, index_entry_10]"

definition field :: "json_object \<Rightarrow> string \<Rightarrow> string option" where
  "field obj k = map_of obj k"

definition has_field :: "json_object \<Rightarrow> string \<Rightarrow> bool" where
  "has_field obj k = (field obj k \<noteq> None)"

definition stated_fields :: "string list" where
  "stated_fields =
    [''id'', ''title'', ''description'', ''source'', ''export'', ''thumbnail_url'',
     ''collection'', ''dataset'']"

definition entry_complete :: "json_object \<Rightarrow> bool" where
  "entry_complete obj = list_all (has_field obj) stated_fields"

definition starts_with :: "string \<Rightarrow> string \<Rightarrow> bool" where
  "starts_with p s = (take (length p) s = p)"

definition ends_with :: "string \<Rightarrow> string \<Rightarrow> bool" where
  "ends_with q s = (length q \<le> length s \<and> drop (length s - length q) s = q)"

definition replace_suffix :: "string \<Rightarrow> string \<Rightarrow> string \<Rightarrow> string option" where
  "replace_suffix old new s =
     (if ends_with old s then Some (take (length s - length old) s @ new) else None)"

definition export_follows_source :: "json_object \<Rightarrow> bool" where
  "export_follows_source obj =
     (case (field obj ''source'', field obj ''export'') of
        (Some src, Some ex) \<Rightarrow>
          replace_suffix ''.ipynb'' ''.html'' src = Some ex \<and> starts_with ''./use-cases/'' src
      | _ \<Rightarrow> False)"

section \<open>Traversals of cells, statements and expressions\<close>

fun code_cells :: "notebook \<Rightarrow> (string \<times> stmt list) list" where
  "code_cells [] = []"
| "code_cells (Markdown i # cs) = code_cells cs"
| "code_cells (Code i ss # cs) = (i, ss) # code_cells cs"

text \<open>
  The expressions a statement holds, nested statements included, in the order Python
  evaluates them (the right-hand side of an assignment before its target).
\<close>

fun stmt_exprs :: "stmt \<Rightarrow> expr list" where
  "stmt_exprs (Import m a) = []"
| "stmt_exprs (Assign t v) = [v, t]"
| "stmt_exprs (ExprStmt e) = [e]"
| "stmt_exprs (Magic m) = []"
| "stmt_exprs (Comment c) = []"
| "stmt_exprs (For x it body) = it # concat (map stmt_exprs body)"
| "stmt_exprs (While c body) = c # concat (map stmt_exprs body)"
| "stmt_exprs (If c a b) = c # concat (map stmt_exprs a) @ concat (map stmt_exprs b)"
| "stmt_exprs (Try body handlers final) =
     concat (map stmt_exprs body)
     @ concat (map (\<lambda>(n, b). concat (map stmt_exprs b)) handlers)
     @ concat (map stmt_exprs final)"
| "stmt_exprs (Raise eo) = (case eo of None \<Rightarrow> [] | Some e \<Rightarrow> [e])"
| "stmt_exprs (With e body) = e # concat (map stmt_exprs body)"

text \<open>All sub-expressions of an expression, operands before the expression itself.\<close>

fun subexprs :: "expr \<Rightarrow> expr list" where
  "subexprs (Name x) = [Name x]"
| "subexprs (Str s) = [Str s]"
| "subexprs (Num n) = [Num n]"
| "subexprs NoneLit = [NoneLit]"
| "subexprs (BoolLit b) = [BoolLit b]"
| "subexprs (FStr es) = concat (map subexprs es) @ [FStr es]"
| "subexprs (Attr e a) = subexprs e @ [Attr e a]"
| "subexprs (Subscript e k) = subexprs e @ subexprs k @ [Subscript e k]"
| "subexprs (Call f as ks) =
     subexprs f @ concat (map subexprs as) @ concat (map (\<lambda>(k, v). subexprs v) ks)
     @ [Call f as ks]"
| "subexprs (ListLit es) = concat (map subexprs es) @ [ListLit es]"
| "subexprs (TupleLit es) = concat (map subexprs es) @ [TupleLit es]"
| "subexprs (DictLit kvs) =
     concat (map (\<lambda>(k, v). subexprs k @ subexprs v) kvs) @ [DictLit kvs]"
| "subexprs (ListComp e gs) =
     concat (map (\<lambda>(x, it). subexprs it) gs) @ subexprs e @ [ListComp e gs]"
| "subexprs (BinOp l oper r) = subexprs l @ subexprs r @ [BinOp l oper r]"
| "subexprs (Compare l oper r) = subexprs l @ subexprs r @ [Compare l oper r]"


definition notebook_stmts :: "notebook \<Rightarrow> stmt list" where
  "notebook_stmts nb = concat (map snd (code_cells nb))"

definition notebook_exprs :: "notebook \<Rightarrow> expr list" where
  "notebook_exprs nb = concat (map subexprs (concat (map stmt_exprs (notebook_stmts nb))))"

fun is_call :: "expr \<Rightarrow> bool" where
  "is_call (Call f as ks) = True"
| "is_call _ = False"



definition notebook_calls :: "notebook \<Rightarrow> expr list" where
  "notebook_calls nb = filter is_call (notebook_exprs nb)"



fun callee :: "string list \<Rightarrow> expr \<Rightarrow> string" where
  "callee ms (Call (Name f) as ks) = f"
| "callee ms (Call (Attr (Name m) f) as ks) =
     (if m \<in> set ms then m @ ''.'' @ f else ''.'' @ f)"
| "callee ms (Call (Attr r f) as ks) = ''.'' @ f"
| "callee ms _ = []"



text \<open>
  The simple statements of a statement in textual order: a loop gives the binding of its
  target to its iterable and then its body once, a conditional its test and then both
  branches.
\<close>

fun simple_stmts :: "stmt \<Rightarrow> stmt list" where
  "simple_stmts (For x it body) = Assign (Name x) it # concat (map simple_stmts body)"
| "simple_stmts (While c body) = ExprStmt c # concat (map simple_stmts body)"
| "simple_stmts (If c a b) =
     ExprStmt c # concat (map simple_stmts a) @ concat (map simple_stmts b)"
| "simple_stmts (Try body handlers final) =
     concat (map simple_stmts body)
     @ concat (map (\<lambda>(n, b). concat (map simple_stmts b)) handlers)
     @ concat (map simple_stmts final)"
| "simple_stmts (With e body) = ExprStmt e # concat (map simple_stmts body)"
| "simple_stmts (Raise eo) = (case eo of None \<Rightarrow> [] | Some e \<Rightarrow> [ExprStmt e])"
| "simple_stmts (Import m a) = [Import m a]"
| "simple_stmts (Assign t v) = [Assign t v]"
| "simple_stmts (ExprStmt e) = [ExprStmt e]"
| "simple_stmts (Magic m) = [Magic m]"
| "simple_stmts (Comment c) = [Comment c]"

section \<open>Control structures\<close>









section \<open>Error handling and the propagation of failures\<close>
















section \<open>Stages of the data: lazy, in memory, reduced\<close>

text \<open>
  What a notebook does to its data is read off the cells by following each variable: a value
  is \<open>Lazy\<close> from \<^verbatim>\<open>xr.open_dataset\<close> until \<^verbatim>\<open>.compute()\<close> makes it \<open>InMemory\<close>; an
  aggregate method (\<^verbatim>\<open>sum\<close>, \<^verbatim>\<open>mean\<close>, \<^verbatim>\<open>std\<close>) applied to data in memory makes it
  \<open>Reduced\<close>; anything that is no array is \<open>Plain\<close>.  Selection, \<^verbatim>\<open>astype\<close>, attribute
  access, indexing and arithmetic keep the stage of their operand, and so do the grouping
  methods \<^verbatim>\<open>groupby\<close> and \<^verbatim>\<open>resample\<close>: they split the data and aggregate nothing, so
  \<^verbatim>\<open>x.groupby(f)[k]\<close> is the part of \<^verbatim>\<open>x\<close> whose field \<^verbatim>\<open>f\<close> is \<^verbatim>\<open>k\<close>, at the stage of \<^verbatim>\<open>x\<close>.
  Of two operands the earlier stage wins.
\<close>

datatype stage = Lazy | InMemory | Reduced | Plain

fun join :: "stage \<Rightarrow> stage \<Rightarrow> stage" where
  "join Lazy t = Lazy"
| "join s Lazy = Lazy"
| "join InMemory t = InMemory"
| "join s InMemory = InMemory"
| "join Reduced t = Reduced"
| "join s Reduced = Reduced"
| "join Plain Plain = Plain"

type_synonym env = "(string \<times> stage) list"

definition lookup :: "env \<Rightarrow> string \<Rightarrow> stage" where
  "lookup env x = (case map_of env x of None \<Rightarrow> Plain | Some s \<Rightarrow> s)"

definition reductions :: "string list" where
  "reductions = [''sum'', ''mean'', ''std'']"

definition groupings :: "string list" where
  "groupings = [''groupby'', ''resample'']"

definition plotting_modules :: "string list" where
  "plotting_modules = [''display'', ''plt'']"

fun reduced :: "stage \<Rightarrow> stage" where
  "reduced Lazy = Lazy"
| "reduced InMemory = Reduced"
| "reduced Reduced = Reduced"
| "reduced Plain = Plain"

fun stage_of :: "env \<Rightarrow> expr \<Rightarrow> stage" where
  "stage_of env (Name x) = lookup env x"
| "stage_of env (Attr e a) = stage_of env e"
| "stage_of env (Subscript e k) = stage_of env e"
| "stage_of env (BinOp l oper r) = join (stage_of env l) (stage_of env r)"
| "stage_of env (Compare l oper r) = join (stage_of env l) (stage_of env r)"
| "stage_of env (ListLit es) = foldr join (map (stage_of env) es) Plain"
| "stage_of env (TupleLit es) = foldr join (map (stage_of env) es) Plain"
| "stage_of env (Call (Attr r m) as ks) =
     (if r = Name ''xr'' then (if m = ''open_dataset'' then Lazy else Plain)
      else if m = ''compute'' then InMemory
      else if m \<in> set reductions then reduced (stage_of env r)
      else if m = ''sel'' \<or> m = ''astype'' \<or> m \<in> set groupings then stage_of env r
      else Plain)"
| "stage_of env (Call f as ks) = Plain"
| "stage_of env (Str s) = Plain"
| "stage_of env (Num n) = Plain"
| "stage_of env NoneLit = Plain"
| "stage_of env (BoolLit b) = Plain"
| "stage_of env (FStr es) = Plain"
| "stage_of env (DictLit kvs) = Plain"
| "stage_of env (ListComp e gs) = Plain"

text \<open>
  The pipeline operations of the spec, each with the stage of the data it is applied to: for
  a method the stage of its receiver (and, for a selection or a grouping, the stage of its
  result), for a plotting call the earliest stage among its arguments.
\<close>

datatype event =
    EvOpen
  | EvSelect stage stage
  | EvGroup string stage stage
  | EvMaterialize stage
  | EvReduce string stage
  | EvPlot string stage

fun call_event :: "env \<Rightarrow> expr \<Rightarrow> event list" where
  "call_event env (Call (Attr r m) as ks) =
     (if r = Name ''xr'' then (if m = ''open_dataset'' then [EvOpen] else [])
      else if r \<in> set (map Name plotting_modules)
        then [EvPlot (callee plotting_modules (Call (Attr r m) as ks))
                (foldr join (map (stage_of env) (as @ map snd ks)) Plain)]
      else if m = ''compute'' then [EvMaterialize (stage_of env r)]
      else if m = ''sel''
        then [EvSelect (stage_of env r) (stage_of env (Call (Attr r m) as ks))]
      else if m \<in> set groupings
        then [EvGroup m (stage_of env r) (stage_of env (Call (Attr r m) as ks))]
      else if m \<in> set reductions then [EvReduce m (stage_of env r)]
      else if m = ''plot'' then [EvPlot ''.plot'' (stage_of env r)]
      else [])"
| "call_event env e = []"

fun events :: "env \<Rightarrow> expr \<Rightarrow> event list" where
  "events env (Call f as ks) =
     events env f @ concat (map (events env) as) @ concat (map (\<lambda>(k, v). events env v) ks)
     @ call_event env (Call f as ks)"
| "events env (Attr e a) = events env e"
| "events env (Subscript e k) = events env e @ events env k"
| "events env (BinOp l oper r) = events env l @ events env r"
| "events env (Compare l oper r) = events env l @ events env r"
| "events env (ListLit es) = concat (map (events env) es)"
| "events env (TupleLit es) = concat (map (events env) es)"
| "events env (FStr es) = concat (map (events env) es)"
| "events env (DictLit kvs) = concat (map (\<lambda>(k, v). events env k @ events env v) kvs)"
| "events env (ListComp e gs) = concat (map (\<lambda>(x, it). events env it) gs) @ events env e"
| "events env (Name x) = []"
| "events env (Str s) = []"
| "events env (Num n) = []"
| "events env NoneLit = []"
| "events env (BoolLit b) = []"

text \<open>
  The simple statements are followed in textual order.  An assignment to a name rebinds the
  name to the stage of the assigned value, which is how \<^verbatim>\<open>x = x.compute()\<close> moves \<^verbatim>\<open>x\<close>
  from lazy to in memory.
\<close>

fun run :: "env \<Rightarrow> stmt list \<Rightarrow> event list" where
  "run env [] = []"
| "run env (Assign (Name x) v # ss) = events env v @ run ((x, stage_of env v) # env) ss"
| "run env (Assign t v # ss) = events env v @ events env t @ run env ss"
| "run env (ExprStmt e # ss) = events env e @ run env ss"
| "run env (s # ss) = run env ss"

definition trace :: "notebook \<Rightarrow> event list" where
  "trace nb = run [] (concat (map simple_stmts (notebook_stmts nb)))"








section \<open>Calls into the plotting helper module\<close>

fun display_function :: "expr \<Rightarrow> string list" where
  "display_function (Attr (Name m) f) = (if m = ''display'' then [f] else [])"
| "display_function _ = []"

definition display_functions :: "notebook \<Rightarrow> string list" where
  "display_functions nb = concat (map display_function (notebook_exprs nb))"

fun is_display_call :: "expr \<Rightarrow> bool" where
  "is_display_call (Call (Attr (Name m) f) as ks) = (m = ''display'')"
| "is_display_call _ = False"

definition display_calls :: "notebook \<Rightarrow> expr list" where
  "display_calls nb = filter is_display_call (notebook_calls nb)"

fun is_name :: "expr \<Rightarrow> bool" where
  "is_name (Name x) = True"
| "is_name _ = False"

text \<open>
  The stated shapes, on the positional arguments: \<^verbatim>\<open>map\<close> takes one array (a variable, not
  a list), \<^verbatim>\<open>maps\<close> one list of arrays, \<^verbatim>\<open>compare\<close> two series.
\<close>

fun stated_shape :: "expr \<Rightarrow> bool" where
  "stated_shape (Call (Attr r f) as ks) =
     (if f = ''map'' then (case as of [a] \<Rightarrow> is_name a | _ \<Rightarrow> False)
      else if f = ''maps''
        then (case as of [ListLit xs] \<Rightarrow> xs \<noteq> [] \<and> list_all is_name xs | _ \<Rightarrow> False)
      else if f = ''compare'' then (case as of [a, b] \<Rightarrow> is_name a \<and> is_name b | _ \<Rightarrow> False)
      else False)"
| "stated_shape _ = False"

fun display_event :: "event \<Rightarrow> bool" where
  "display_event (EvPlot f s) = starts_with ''display.'' f"
| "display_event _ = False"

section \<open>Transports of the dataset-opening calls\<close>

text \<open>
  A dataset-opening call is a call of a function of the \<^verbatim>\<open>xarray\<close> module (bound to
  \<^verbatim>\<open>xr\<close>).  Its transport is read from the scheme of the URL it is given; an HTTPS call
  counts as credential-file based when it passes
  \<^verbatim>\<open>storage_options={"client_kwargs": {"trust_env": True}}\<close>, the switch that lets the HTTP
  client take the login from \<^verbatim>\<open>~/.netrc\<close>, as the comment of that cell requires.
\<close>

fun is_xr_call :: "expr \<Rightarrow> bool" where
  "is_xr_call (Call (Attr (Name m) f) as ks) = (m = ''xr'')"
| "is_xr_call _ = False"

definition opening_calls :: "notebook \<Rightarrow> expr list" where
  "opening_calls nb = filter is_xr_call (notebook_calls nb)"

definition scheme :: "string \<Rightarrow> string" where
  "scheme url = takeWhile (\<lambda>c. c \<noteq> CHR '':'') url"

definition trusts_env :: "(string option \<times> expr) list \<Rightarrow> bool" where
  "trusts_env ks =
     (map_of ks (Some ''storage_options'')
      = Some (DictLit [(Str ''client_kwargs'', DictLit [(Str ''trust_env'', BoolLit True)])]))"

datatype transport = HttpsCredentialFile | ObjectStorageS3 | OtherTransport

fun transport_of :: "expr \<Rightarrow> transport" where
  "transport_of (Call f (Str url # as) ks) =
     (if f = Attr (Name ''xr'') ''open_dataset'' \<and> scheme url = ''https'' \<and> trusts_env ks
        then HttpsCredentialFile
      else if f = Attr (Name ''xr'') ''open_dataset'' \<and> scheme url = ''s3''
        then ObjectStorageS3
      else OtherTransport)"
| "transport_of _ = OtherTransport"

fun contains :: "string \<Rightarrow> string \<Rightarrow> bool" where
  "contains p [] = (p = [])"
| "contains p (c # s) = (starts_with p (c # s) \<or> contains p s)"

fun comment_text :: "stmt \<Rightarrow> string list" where
  "comment_text (Comment c) = [c]"
| "comment_text _ = []"

definition netrc_comments :: "notebook \<Rightarrow> string list" where
  "netrc_comments nb =
     filter (contains ''~/.netrc'') (concat (map comment_text (notebook_stmts nb)))"

section \<open>Forms of selection\<close>























section \<open>The September average of the floods notebook, as a function\<close>

text \<open>
  Cells \<^verbatim>\<open>cce4fb6d\<close>, \<^verbatim>\<open>a26f17ac\<close> and \<^verbatim>\<open>3e46d01e\<close> compute a value; they are translated into
  functions.  The three constants are the notebook's own.
\<close>

definition YEARS :: "string list" where
  "YEARS =
    [''1991'', ''1992'', ''1993'',
     ''1994'', ''1995'', ''1996'',
     ''1997'', ''1998'', ''1999'',
     ''2000'', ''2001'', ''2002'',
     ''2003'', ''2004'', ''2005'',
     ''2006'', ''2007'', ''2008'',
     ''2009'', ''2010'', ''2011'',
     ''2012'', ''2013'', ''2014'',
     ''2015'', ''2016'', ''2017'',
     ''2018'', ''2019'', ''2020'']"

definition DAYS :: "string list" where
  "DAYS =
    [''01'', ''02'', ''03'',
     ''04'', ''05'', ''06'',
     ''07'', ''08'', ''09'',
     ''10'', ''11'', ''12'',
     ''13'', ''14'', ''15'',
     ''16'', ''17'', ''18'',
     ''19'', ''20'', ''21'',
     ''22'', ''23'', ''24'',
     ''25'', ''26'', ''27'',
     ''28'', ''29'', ''30'']"

definition MONTH_REFERENCE_TIME :: "string list" where
  "MONTH_REFERENCE_TIME = concat (map (\<lambda>y. map (\<lambda>d. y @ ''-09-'' @ d) DAYS) YEARS)"

text \<open>Decimal numerals of fixed width, to say which strings the two lists hold.\<close>

definition two_digits :: "nat \<Rightarrow> string" where
  "two_digits n = [''0123456789'' ! (n div 10 mod 10), ''0123456789'' ! (n mod 10)]"

definition four_digits :: "nat \<Rightarrow> string" where
  "four_digits n = two_digits (n div 100) @ two_digits (n mod 100)"

text \<open>
  The array library is not part of the repository.  Of a data array the model keeps what
  the computation uses: the labels of the time axis, for each grid cell its series of values
  along that axis (one value per label), and the attributes.  The type of the values and the
  arithmetic on them are parameters: the notebook casts to \<^verbatim>\<open>float32\<close>, its \<^verbatim>\<open>sum\<close> is the
  library's sum that skips NaN, and \<^verbatim>\<open>/\<close> and \<^verbatim>\<open>*\<close> take a Python integer on the right; none
  of the three is exact arithmetic, so nothing is assumed about them.
\<close>

record 'a arithmetic =
  nansum :: "'a list \<Rightarrow> 'a"
  true_divide :: "'a \<Rightarrow> int \<Rightarrow> 'a"
  multiply :: "'a \<Rightarrow> int \<Rightarrow> 'a"

record 'a data_array =
  valid_time :: "string list"
  data :: "'a list list"
  attrs :: "(string \<times> string) list"

record 'a reduced_array =
  cells :: "'a list"
  rattrs :: "(string \<times> string) list"

definition rectangular :: "'a data_array \<Rightarrow> bool" where
  "rectangular da = list_all (\<lambda>series. length series = length (valid_time da)) (data da)"

text \<open>
  Selection by a list of labels looks every label up on the axis.  The lookup needs an axis
  without repeated labels and raises \<^verbatim>\<open>InvalidIndexError\<close> otherwise; a label that is not on
  the axis raises \<^verbatim>\<open>KeyError\<close>.  The result has one time step per requested label, in the
  order of the request.  A date label stands for the time step that carries it.
\<close>

datatype py_error = InvalidIndexError | KeyError

fun position :: "'a list \<Rightarrow> 'a \<Rightarrow> nat option" where
  "position [] x = None"
| "position (y # ys) x = (if x = y then Some 0 else map_option Suc (position ys x))"

definition sel_valid_time :: "string list \<Rightarrow> 'a data_array \<Rightarrow> py_error + 'a data_array" where
  "sel_valid_time labels da =
     (if \<not> distinct (valid_time da) then Inl InvalidIndexError
      else case those (map (position (valid_time da)) labels) of
        None \<Rightarrow> Inl KeyError
      | Some idx \<Rightarrow>
          Inr (da\<lparr>valid_time := labels,
                  data := map (\<lambda>series. map (nth series) idx) (data da)\<rparr>))"

definition compute :: "'a data_array \<Rightarrow> 'a data_array" where
  "compute da = da"

text \<open>
  Summing along the time axis leaves one value per grid cell; the results of a reduction and
  of arithmetic start without attributes.
\<close>

definition sum_valid_time :: "'a arithmetic \<Rightarrow> 'a data_array \<Rightarrow> 'a reduced_array" where
  "sum_valid_time ar da = \<lparr>cells = map (nansum ar) (data da), rattrs = []\<rparr>"

definition div_scalar :: "'a arithmetic \<Rightarrow> 'a reduced_array \<Rightarrow> int \<Rightarrow> 'a reduced_array" where
  "div_scalar ar a k = \<lparr>cells = map (\<lambda>v. true_divide ar v k) (cells a), rattrs = []\<rparr>"

definition mul_scalar :: "'a arithmetic \<Rightarrow> 'a reduced_array \<Rightarrow> int \<Rightarrow> 'a reduced_array" where
  "mul_scalar ar a k = \<lparr>cells = map (\<lambda>v. multiply ar v k) (cells a), rattrs = []\<rparr>"

definition set_attr :: "string \<Rightarrow> string \<Rightarrow> 'a reduced_array \<Rightarrow> 'a reduced_array" where
  "set_attr k v a = a\<lparr>rattrs := (k, v) # filter (\<lambda>(k', v'). k' \<noteq> k) (rattrs a)\<rparr>"

definition tp_greece_september_1991_2020 ::
    "'a data_array \<Rightarrow> py_error + 'a data_array" where
  "tp_greece_september_1991_2020 tp_greece =
     (case sel_valid_time MONTH_REFERENCE_TIME tp_greece of
        Inl e \<Rightarrow> Inl e
      | Inr selected \<Rightarrow> Inr (compute selected))"

definition tp_greece_september_1991_2020_average ::
    "'a arithmetic \<Rightarrow> 'a data_array \<Rightarrow> py_error + 'a reduced_array" where
  "tp_greece_september_1991_2020_average ar tp_greece =
     (case tp_greece_september_1991_2020 tp_greece of
        Inl e \<Rightarrow> Inl e
      | Inr loaded \<Rightarrow>
          Inr (set_attr ''units'' ''mm''
                 (mul_scalar ar
                    (div_scalar ar (sum_valid_time ar loaded) (int (length YEARS)))
                    1000)))"

text \<open>
  An example on two grid cells whose values differ from step to step: the axis has the 900
  labels and one more, the first cell holds 0, 1, 2, ... and the second 900, 899, 898, ...
  All values, sums, quotients and products of the example are integers below \<open>2^24\<close>, which
  \<^verbatim>\<open>float32\<close> represents exactly, so exact arithmetic computes what the library computes.
\<close>

definition exact_arithmetic :: "real arithmetic" where
  "exact_arithmetic =
     \<lparr>nansum = sum_list, true_divide = (\<lambda>v k. v / of_int k), multiply = (\<lambda>v k. v * of_int k)\<rparr>"

definition september_example :: "real data_array" where
  "september_example =
     \<lparr>valid_time = MONTH_REFERENCE_TIME @ [''2023-09-06''],
      data = [map real [0..<901], map (\<lambda>i. real (900 - i)) [0..<901]],
      attrs = [(''units'', ''m'')]\<rparr>"

section \<open>Unfolding the embedded sources\<close>

lemmas index_entry_defs =
  index_entry_0_def index_entry_1_def index_entry_2_def index_entry_3_def index_entry_4_def
  index_entry_5_def index_entry_6_def index_entry_7_def index_entry_8_def index_entry_9_def
  index_entry_10_def

section \<open>The catalog\<close>

text \<open>
  Claim C7.  Every entry of the catalog has all eight stated members: an identifier
  (\<^verbatim>\<open>id\<close>), a title, a description, a source path, an exported-HTML path
  (\<^verbatim>\<open>export\<close>), a thumbnail URL, a collection tag and a dataset tag; no entry omits one.
\<close>

theorem index_entries_complete:
  "list_all entry_complete index_entries"
  by (simp add: index_entries_def entry_complete_def stated_fields_def has_field_def field_def
      index_entry_defs)

text \<open>
  Claim C10.  The catalog has eleven entries, and in each of them the export path is the
  source path with the suffix \<^verbatim>\<open>.ipynb\<close> replaced by \<^verbatim>\<open>.html\<close>, and the source path begins
  with \<^verbatim>\<open>./use-cases/\<close>.
\<close>

theorem index_export_follows_source:
  "length index_entries = 11 \<and> list_all export_follows_source index_entries"
  by (simp add: index_entries_def export_follows_source_def replace_suffix_def ends_with_def
      starts_with_def field_def index_entry_defs)

section \<open>The September average\<close>

text \<open>The two lists of the function are the two list literals of cell \<^verbatim>\<open>cce4fb6d\<close>.\<close>

lemma YEARS_expr_YEARS: "YEARS_expr = ListLit (map Str YEARS)"
  by (simp add: YEARS_expr_def YEARS_def)

lemma DAYS_expr_DAYS: "DAYS_expr = ListLit (map Str DAYS)"
  by (simp add: DAYS_expr_def DAYS_def)

lemma length_YEARS: "length YEARS = 30"
  by (simp add: YEARS_def)

lemma length_DAYS: "length DAYS = 30"
  by (simp add: DAYS_def)

lemma length_MONTH_REFERENCE_TIME: "length MONTH_REFERENCE_TIME = 900"
  by (simp add: MONTH_REFERENCE_TIME_def length_concat comp_def length_DAYS sum_list_triv length_YEARS)

lemma YEARS_decimal: "YEARS = map four_digits [1991..<2021]"
  by (simp add: YEARS_def four_digits_def two_digits_def upt_rec[of 1991] upt_rec[of "Suc _"])

lemma DAYS_decimal: "DAYS = map two_digits [1..<31]"
  by (simp add: DAYS_def two_digits_def upt_rec[of 1] upt_rec[of "Suc _"])

lemma MONTH_REFERENCE_TIME_order:
  "MONTH_REFERENCE_TIME =
     concat (map (\<lambda>y. map (\<lambda>d. four_digits y @ ''-09-'' @ two_digits d) [1..<31]) [1991..<2021])"
  unfolding MONTH_REFERENCE_TIME_def YEARS_decimal DAYS_decimal by (simp only: map_map comp_def)

lemma concat_map_product:
  "concat (map (\<lambda>x. map (f x) ys) xs) = map (\<lambda>(x, y). f x y) (List.product xs ys)"
  by (induction xs) simp_all

lemma distinct_YEARS: "distinct YEARS"
  by (simp add: YEARS_def)

lemma distinct_DAYS: "distinct DAYS"
  by (simp add: DAYS_def)

lemma length_year: "y \<in> set YEARS \<Longrightarrow> length y = 4"
  by (auto simp: YEARS_def)

lemma distinct_MONTH_REFERENCE_TIME: "distinct MONTH_REFERENCE_TIME"
proof -
  have "inj_on (\<lambda>(y, d). y @ ''-09-'' @ d) (set (List.product YEARS DAYS))"
    by (auto simp: inj_on_def dest!: length_year)
  then show ?thesis
    unfolding MONTH_REFERENCE_TIME_def concat_map_product
    by (simp add: distinct_map distinct_product distinct_YEARS distinct_DAYS)
qed

lemma extra_label_not_selected: "''2023-09-06'' \<notin> set MONTH_REFERENCE_TIME"
proof
  assume "''2023-09-06'' \<in> set MONTH_REFERENCE_TIME"
  then obtain y d where y: "y \<in> set YEARS" and eq: "''2023-09-06'' = y @ ''-09-'' @ d"
    by (auto simp: MONTH_REFERENCE_TIME_def)
  from eq have "take 4 ''2023-09-06'' = take 4 (y @ ''-09-'' @ d)" by simp
  with length_year[OF y] have "y = ''2023''" by simp
  with y show False by (simp add: YEARS_def)
qed

lemma position_None: "position xs x = None \<longleftrightarrow> x \<notin> set xs"
  by (induction xs) auto

lemma position_Some: "position xs x = Some i \<Longrightarrow> i < length xs \<and> xs ! i = x"
  by (induction xs arbitrary: i) (auto split: if_splits)

lemma those_positions:
  "set labels \<subseteq> set xs \<Longrightarrow>
     \<exists>idx. those (map (position xs) labels) = Some idx
       \<and> map (nth xs) idx = labels \<and> list_all (\<lambda>i. i < length xs) idx"
proof (induction labels)
  case Nil
  then show ?case by simp
next
  case (Cons l labels)
  then obtain idx where idx: "those (map (position xs) labels) = Some idx"
      "map (nth xs) idx = labels" "list_all (\<lambda>i. i < length xs) idx"
    by auto
  from Cons.prems obtain i where i: "position xs l = Some i"
    by (cases "position xs l") (auto simp: position_None)
  with position_Some[OF i] idx show ?case by simp
qed

lemma position_Some_mem: "position xs x = Some i \<Longrightarrow> x \<in> set xs"
  using position_None[of xs x] by auto

lemma those_positions_present:
  "those (map (position xs) labels) = Some idx \<Longrightarrow> set labels \<subseteq> set xs"
proof (induction labels arbitrary: idx)
  case Nil
  then show ?case by simp
next
  case (Cons l labels)
  then show ?case
    by (cases "position xs l") (auto dest: position_Some_mem split: option.splits)
qed

lemma those_positions_missing:
  "\<not> set labels \<subseteq> set xs \<Longrightarrow> those (map (position xs) labels) = None"
  using those_positions_present[of xs labels] by (cases "those (map (position xs) labels)") auto

text \<open>On an axis without repeated labels, the labels determine the time steps.\<close>

lemma index_list_unique:
  assumes "distinct xs" and "map (nth xs) is = map (nth xs) js"
    and "list_all (\<lambda>i. i < length xs) is" and "list_all (\<lambda>i. i < length xs) js"
  shows "is = js"
  using assms(2-4)
proof (induction "is" arbitrary: js)
  case Nil
  then show ?case by simp
next
  case (Cons i "is")
  then obtain j js' where js: "js = j # js'" by (cases js) auto
  with Cons.prems have "xs ! i = xs ! j" "i < length xs" "j < length xs" by auto
  with assms(1) have "i = j" by (simp add: nth_eq_iff_index_eq)
  moreover have "is = js'" using Cons js by auto
  ultimately show ?case using js by simp
qed

lemma sel_valid_time_repeated:
  "\<not> distinct (valid_time da) \<Longrightarrow> sel_valid_time labels da = Inl InvalidIndexError"
  by (simp add: sel_valid_time_def)

lemma sel_valid_time_missing:
  "distinct (valid_time da) \<Longrightarrow> \<not> set labels \<subseteq> set (valid_time da) \<Longrightarrow>
     sel_valid_time labels da = Inl KeyError"
  by (simp add: sel_valid_time_def those_positions_missing)

text \<open>
  Claim C9.  In the floods notebook the 1991-2020 September average is, for every grid cell
  of the Greece selection, the sum over the 900 selected time steps, divided by 30 (the
  number of years, not of time steps) and multiplied by 1000, with the attribute \<^verbatim>\<open>units\<close>
  set to \<^verbatim>\<open>mm\<close>; the time steps are those that carry the 900 labels \<^verbatim>\<open>YYYY-09-DD\<close> for the
  years 1991 to 2020 and the days 01 to 30, years outermost, both ascending.  Sum, division
  and multiplication are the library's, whatever they round.  The time axis is assumed to
  have no repeated label and to have the 900 labels; otherwise the selection raises.
\<close>

theorem september_average:
  assumes "rectangular tp_greece" and "distinct (valid_time tp_greece)"
    and "set MONTH_REFERENCE_TIME \<subseteq> set (valid_time tp_greece)"
  shows "\<exists>steps average.
       tp_greece_september_1991_2020_average ar tp_greece = Inr average
     \<and> map (nth (valid_time tp_greece)) steps = MONTH_REFERENCE_TIME
     \<and> list_all (\<lambda>i. i < length (valid_time tp_greece)) steps
     \<and> cells average =
         map (\<lambda>series. multiply ar (true_divide ar (nansum ar (map (nth series) steps)) 30) 1000)
           (data tp_greece)
     \<and> map_of (rattrs average) ''units'' = Some ''mm''
     \<and> length MONTH_REFERENCE_TIME = 900 \<and> length YEARS = 30
     \<and> MONTH_REFERENCE_TIME =
         concat (map (\<lambda>y. map (\<lambda>d. four_digits y @ ''-09-'' @ two_digits d) [1..<31])
           [1991..<2021])"
proof -
  from those_positions[OF assms(3)] obtain steps where
    steps: "those (map (position (valid_time tp_greece)) MONTH_REFERENCE_TIME) = Some steps"
      "map (nth (valid_time tp_greece)) steps = MONTH_REFERENCE_TIME"
      "list_all (\<lambda>i. i < length (valid_time tp_greece)) steps"
    by blast
  have "tp_greece_september_1991_2020_average ar tp_greece =
      Inr \<lparr>cells = map (\<lambda>series. multiply ar (true_divide ar (nansum ar (map (nth series) steps)) 30) 1000)
             (data tp_greece),
           rattrs = [(''units'', ''mm'')]\<rparr>"
    using assms(2) steps(1)
    by (simp add: tp_greece_september_1991_2020_average_def tp_greece_september_1991_2020_def
        sel_valid_time_def compute_def sum_valid_time_def div_scalar_def mul_scalar_def
        set_attr_def length_YEARS comp_def)
  with steps(2,3) show ?thesis
    using MONTH_REFERENCE_TIME_order length_MONTH_REFERENCE_TIME length_YEARS by auto
qed

lemma sum_upt_real: "(\<Sum>i\<leftarrow>[0..<n]. real i) = real n * (real n - 1) / 2"
  by (induction n) (auto simp: field_simps)

lemma map_nth_upt_prefix: "n \<le> length xs \<Longrightarrow> map (nth xs) [0..<n] = take n xs"
  by (simp add: list_eq_iff_nth_eq)

text \<open>
  On the example the selected steps are the first 900, and the two cells give
  \<open>404550 / 30 * 1000\<close> and \<open>405450 / 30 * 1000\<close>; the step of the extra label is left out.
\<close>

theorem september_average_witness:
  "rectangular september_example \<and> distinct (valid_time september_example)
   \<and> set MONTH_REFERENCE_TIME \<subseteq> set (valid_time september_example)
   \<and> (\<exists>average. tp_greece_september_1991_2020_average exact_arithmetic september_example
          = Inr average
        \<and> cells average = [13485000, 13515000]
        \<and> map_of (rattrs average) ''units'' = Some ''mm'')"
proof -
  let ?axis = "MONTH_REFERENCE_TIME @ [''2023-09-06'']"
  have axis: "valid_time september_example = ?axis"
    by (simp add: september_example_def)
  have rect: "rectangular september_example"
    by (simp add: rectangular_def september_example_def length_MONTH_REFERENCE_TIME)
  have dist: "distinct (valid_time september_example)"
    by (simp add: axis distinct_MONTH_REFERENCE_TIME extra_label_not_selected)
  have present: "set MONTH_REFERENCE_TIME \<subseteq> set (valid_time september_example)"
    by (auto simp: axis)
  from september_average[OF rect dist present, of exact_arithmetic]
  obtain steps average where
    res: "tp_greece_september_1991_2020_average exact_arithmetic september_example = Inr average"
    and steps: "map (nth ?axis) steps = MONTH_REFERENCE_TIME"
      "list_all (\<lambda>i. i < length ?axis) steps"
    and cells: "cells average =
       map (\<lambda>series. multiply exact_arithmetic
            (true_divide exact_arithmetic (nansum exact_arithmetic (map (nth series) steps)) 30) 1000)
         (data september_example)"
    and units: "map_of (rattrs average) ''units'' = Some ''mm''"
    unfolding axis by blast
  have first: "map (nth ?axis) [0..<900] = MONTH_REFERENCE_TIME"
    by (simp add: map_nth_upt_prefix length_MONTH_REFERENCE_TIME)
  have "list_all (\<lambda>i. i < length ?axis) [0..<900]"
    by (simp add: list_all_iff length_MONTH_REFERENCE_TIME)
  with index_list_unique[of ?axis steps "[0..<900]"] dist steps first
  have steps_eq: "steps = [0..<900]"
    by (simp add: axis)
  have s0: "map (nth (map real [0..<901])) [0..<900] = map real [0..<900]"
    by (simp add: list_eq_iff_nth_eq)
  have s1: "map (nth (map (\<lambda>i. real (900 - i)) [0..<901])) [0..<900]
      = map (\<lambda>i. 900 - real i) [0..<900]"
    by (simp add: list_eq_iff_nth_eq)
  have sum0: "(\<Sum>i\<leftarrow>[0..<900]. real i) = 404550"
    by (simp add: sum_upt_real)
  have sum1: "(\<Sum>i\<leftarrow>[0..<900]. 900 - real i) = 405450"
    using sum0 by (simp add: sum_list_subtractf sum_list_triv)
  have "cells average = [13485000, 13515000]"
    unfolding cells steps_eq
    by (simp add: september_example_def exact_arithmetic_def s0 s1 sum0 sum1 del: upt_Suc)
  with rect dist present res units show ?thesis by blast
qed

section \<open>The order of operations\<close>





section \<open>Control structures\<close>



section \<open>Error handling\<close>














section \<open>The plotting helper\<close>

text \<open>
  Claim C5.  The notebooks use three functions of the module \<^verbatim>\<open>display\<close>: \<^verbatim>\<open>map\<close>, \<^verbatim>\<open>maps\<close>
  and \<^verbatim>\<open>compare\<close>, and every use is a call.  \<^verbatim>\<open>display.map\<close> is called with one array and
  \<^verbatim>\<open>display.maps\<close> with one list of arrays, all of them reduced data; \<^verbatim>\<open>display.compare\<close> is
  called with two series, which are in memory.
\<close>

theorem display_calls_stated:
  "display_functions floods_notebook = [''map'', ''maps'', ''compare'']
   \<and> display_functions era5_notebook = [''map'', ''map'']
   \<and> length (display_calls floods_notebook) = 3
   \<and> length (display_calls era5_notebook) = 2
   \<and> list_all stated_shape (display_calls floods_notebook)
   \<and> list_all stated_shape (display_calls era5_notebook)
   \<and> filter display_event (trace floods_notebook)
       = [EvPlot ''display.map'' Reduced, EvPlot ''display.maps'' Reduced,
          EvPlot ''display.compare'' InMemory]
   \<and> filter display_event (trace era5_notebook)
       = [EvPlot ''display.map'' Reduced, EvPlot ''display.map'' Reduced]"
  by code_simp

section \<open>Selections\<close>



section \<open>Transports\<close>

text \<open>
  Claim C8.  Each notebook opens its dataset with one call of \<^verbatim>\<open>xr.open_dataset\<close>: the
  floods notebook from an \<^verbatim>\<open>s3://\<close> object store, the era5 notebook from an \<^verbatim>\<open>https://\<close>
  endpoint with the option that lets the client read the login from the credential file,
  which the comment of that cell names as \<^verbatim>\<open>~/.netrc\<close>.  There is no other call into
  \<^verbatim>\<open>xarray\<close>.
\<close>

theorem opening_calls_transports:
  "map transport_of (opening_calls floods_notebook) = [ObjectStorageS3]
   \<and> map transport_of (opening_calls era5_notebook) = [HttpsCredentialFile]
   \<and> netrc_comments floods_notebook = []
   \<and> netrc_comments era5_notebook
       = [''your `~/.netrc` file MUST contain your credentials for earthdatahub.com'']"
  by code_simp

end
